theory Spec2Isabelle
  imports Main "HOL-Library.Multiset"
begin

section \<open>Python values, identifiers and errors\<close>

text \<open>
  A \<^verbatim>\<open>uuid.UUID\<close> is identified with its canonical textual form, which is what
  \<^verbatim>\<open>str(uuid)\<close> returns: two UUIDs are equal exactly when their texts are.
\<close>

datatype UUID = UUID string

fun str_of_uuid :: "UUID \<Rightarrow> string" where
  "str_of_uuid (UUID s) = s"

text \<open>
  The values that flow through the engine as \<^verbatim>\<open>Any\<close>: \<^verbatim>\<open>None\<close>, booleans, integers,
  strings (object ids of the exchange service are strings) and objects. An object carries
  its identity, the names of the classes it is an instance of (the method resolution order
  of its type) and its content.
\<close>

datatype 'a pyval =
    PyNone
  | PyBool bool
  | PyInt int
  | PyStr string
  | PyObj nat "string list" 'a

datatype 'a error =
    ValueError "'a pyval"
  | NotImplementedError string
  | TypeError string
  | ImportError string
  | IndexError string
  | KeyError string
  | AttributeError string

text \<open>
  The truth value of a value, as \<^verbatim>\<open>bool(x)\<close> gives it: \<^verbatim>\<open>None\<close>, \<^verbatim>\<open>False\<close>, zero and the
  empty string are false. An object is taken as true, the default of a class that defines
  neither \<^verbatim>\<open>__bool__\<close> nor \<^verbatim>\<open>__len__\<close>.
\<close>

fun py_bool :: "'a pyval \<Rightarrow> bool" where
  "py_bool PyNone = False"
| "py_bool (PyBool b) = b"
| "py_bool (PyInt i) = (i \<noteq> 0)"
| "py_bool (PyStr s) = (s \<noteq> [])"
| "py_bool (PyObj ident classes content) = True"

section \<open>Index, JoinType and Link\<close>

text \<open>
  Modelled from the spec: \<^verbatim>\<open>Index\<close> (components/index/index.py) is not among the
  sources. The spec describes it as an ordered tuple of one or more column names that is
  either simple (single-column) or composite (multi-column); \<^verbatim>\<open>is_multi_index\<close> reports
  the composite case. The merge engine reads the tuple as \<^verbatim>\<open>index.index\<close>.
\<close>

datatype Index = Index "string list"



text \<open>
  Modelled from the spec: \<^verbatim>\<open>JoinType\<close> (components/link.py) is not among the sources.
  The dispatcher compares against the members \<^verbatim>\<open>INNER\<close>, \<^verbatim>\<open>LEFT\<close>, \<^verbatim>\<open>RIGHT\<close> and
  \<^verbatim>\<open>OUTER\<close>; \<open>OTHER\<close> stands for any further member, which reaches the dispatcher's
  final \<^verbatim>\<open>else\<close>.
\<close>

datatype JoinType = INNER | LEFT | RIGHT | OUTER | OTHER string

fun jointype_repr :: "JoinType \<Rightarrow> string" where
  "jointype_repr INNER = ''JoinType.INNER''"
| "jointype_repr LEFT = ''JoinType.LEFT''"
| "jointype_repr RIGHT = ''JoinType.RIGHT''"
| "jointype_repr OUTER = ''JoinType.OUTER''"
| "jointype_repr (OTHER n) = ''JoinType.'' @ n"

text \<open>The fields of a \<^verbatim>\<open>Link\<close> that the join step reads, and its uuid.\<close>

record Link =
  jointype :: JoinType
  left_index :: Index
  right_index :: Index
  link_uuid :: UUID

section \<open>BaseMergeEngine (components/merge/base_merge_engine.py)\<close>

text \<open>
  A merge engine class is the record of its four overridable verbs together with its class
  name; \<open>'d\<close> is the physical data it joins. \<^verbatim>\<open>BaseMergeEngine\<close> gives every verb the
  default that raises; the dispatcher \<^verbatim>\<open>merge\<close> is final.
\<close>

record ('d, 'a) merge_engine =
  engine_name :: string
  merge_inner :: "'d \<Rightarrow> 'd \<Rightarrow> Index \<Rightarrow> Index \<Rightarrow> 'a error + 'd"
  merge_left :: "'d \<Rightarrow> 'd \<Rightarrow> Index \<Rightarrow> Index \<Rightarrow> 'a error + 'd"
  merge_right :: "'d \<Rightarrow> 'd \<Rightarrow> Index \<Rightarrow> Index \<Rightarrow> 'a error + 'd"
  merge_full_outer :: "'d \<Rightarrow> 'd \<Rightarrow> Index \<Rightarrow> Index \<Rightarrow> 'a error + 'd"

definition BaseMergeEngine :: "string \<Rightarrow> ('d, 'a) merge_engine" where
  "BaseMergeEngine cls_name =
     \<lparr>engine_name = cls_name,
      merge_inner = (\<lambda>left_data right_data li ri.
         Inl (ValueError (PyStr (''JoinType inner are not yet implemented '' @ cls_name)))),
      merge_left = (\<lambda>left_data right_data li ri.
         Inl (ValueError (PyStr (''JoinType left are not yet implemented '' @ cls_name)))),
      merge_right = (\<lambda>left_data right_data li ri.
         Inl (ValueError (PyStr (''JoinType right are not yet implemented '' @ cls_name)))),
      merge_full_outer = (\<lambda>left_data right_data li ri.
         Inl (ValueError (PyStr (''JoinType full outer are not yet implemented '' @ cls_name))))\<rparr>"

definition merge ::
  "('d, 'a) merge_engine \<Rightarrow> 'd \<Rightarrow> 'd \<Rightarrow> JoinType \<Rightarrow> Index \<Rightarrow> Index \<Rightarrow> 'a error + 'd" where
  "merge self left_data right_data jt li ri =
     (if jt = INNER then merge_inner self left_data right_data li ri
      else if jt = LEFT then merge_left self left_data right_data li ri
      else if jt = RIGHT then merge_right self left_data right_data li ri
      else if jt = OUTER then merge_full_outer self left_data right_data li ri
      else Inl (ValueError (PyStr (''JoinType '' @ jointype_repr jt
                  @ '' are not yet implemented '' @ engine_name self))))"

section \<open>Data frames\<close>











section \<open>The library function \<^verbatim>\<open>pandas.merge\<close>\<close>








section \<open>The relational joins of the spec\<close>











section \<open>PandasMergeEngine (pandas/pandas_merge_engine.py)\<close>






section \<open>Features and FeatureSet (components/feature_set.py)\<close>

text \<open>
  Modelled from the spec: \<^verbatim>\<open>Feature\<close>, \<^verbatim>\<open>FeatureName\<close> and \<^verbatim>\<open>Options\<close> are not among the
  sources. A feature has a name, an options bag, a unique id and the flag of an initially
  requested feature; by the spec its identity is (name, options), which is the equality a
  Python set of features uses. Every feature has an options bag, kept as its list of entries.
\<close>

datatype FeatureName = FeatureName string

fun feature_name_str :: "FeatureName \<Rightarrow> string" where
  "feature_name_str (FeatureName n) = n"

datatype Options = Options "(string \<times> string) list"

record Feature =
  name :: FeatureName
  feature_options :: Options
  feature_uuid :: UUID
  initial_requested_data :: bool

definition feature_eq :: "Feature \<Rightarrow> Feature \<Rightarrow> bool" where
  "feature_eq f g = (name f = name g \<and> feature_options f = feature_options g)"

type_synonym SingleFilter = string

text \<open>
  Modelled from the spec: \<^verbatim>\<open>BaseFilterEngine\<close> is not among the sources. The framework
  reads of a filter engine class whether it is a subclass of \<^verbatim>\<open>BaseFilterEngine\<close>, the
  result of \<^verbatim>\<open>final_filters()\<close> and \<^verbatim>\<open>apply_filters(data, features)\<close>, which sees the
  feature set's features and filters.
\<close>

record 'a filter_engine =
  is_base_filter_engine_subclass :: bool
  final_filters :: "'a error + 'a pyval"
  apply_filters :: "'a pyval \<Rightarrow> Feature list \<Rightarrow> SingleFilter set option \<Rightarrow> 'a error + 'a pyval"

text \<open>
  The attribute \<^verbatim>\<open>filter_engine\<close> of a feature set is \<^verbatim>\<open>None\<close> or a callable; the model
  keeps what calling it gives: a filter engine class, or the error it raises. The set of
  features is kept as the list of its distinct members in insertion order.
\<close>

record 'a FeatureSet =
  features :: "Feature list"
  options :: "Options option"
  any_uuid :: "UUID option"
  filters :: "SingleFilter set option"
  name_of_one_feature :: "FeatureName option"
  artifact_to_save :: "string option"
  artifact_to_load :: "string option"
  save_artifact :: "'a pyval"
  filter_engine :: "('a error + 'a filter_engine) option"

definition FeatureSet_init :: "'a filter_engine \<Rightarrow> 'a FeatureSet" where
  "FeatureSet_init base_filter_engine =
     \<lparr>features = [], options = None, any_uuid = None, filters = None,
      name_of_one_feature = None, artifact_to_save = None, artifact_to_load = None,
      save_artifact = PyNone, filter_engine = Some (Inr base_filter_engine)\<rparr>"

definition set_add :: "Feature list \<Rightarrow> Feature \<Rightarrow> Feature list" where
  "set_add fs f = (if \<exists>g \<in> set fs. feature_eq g f then fs else fs @ [f])"

definition add :: "'a FeatureSet \<Rightarrow> Feature \<Rightarrow> 'a FeatureSet" where
  "add self feature =
     (let s1 = self\<lparr>features := set_add (features self) feature\<rparr>;
          s2 = s1\<lparr>name_of_one_feature := Some (name feature)\<rparr>;
          s3 = (if options s2 = None then s2\<lparr>options := Some (feature_options feature)\<rparr> else s2);
          s4 = (if any_uuid s3 = None then s3\<lparr>any_uuid := Some (feature_uuid feature)\<rparr> else s3)
      in s4)"

definition get_all_names :: "'a FeatureSet \<Rightarrow> string set" where
  "get_all_names self = (\<lambda>f. feature_name_str (name f)) ` set (features self)"

definition get_name_of_one_feature :: "'a FeatureSet \<Rightarrow> 'a error + FeatureName" where
  "get_name_of_one_feature self =
     (case name_of_one_feature self of
        None \<Rightarrow> Inl (ValueError (PyStr ''No feature added yet. Add a feature before calling this method.''))
      | Some n \<Rightarrow> Inr n)"

definition get_options :: "'a FeatureSet \<Rightarrow> 'a error + Options" where
  "get_options self =
     (case options self of
        None \<Rightarrow> Inl (ValueError (PyStr
          ''No options set. Call this after adding a feature to ensure Options are initialized.''))
      | Some opts \<Rightarrow> Inr opts)"

section \<open>The exchange service and uuid generation\<close>

text \<open>
  Modelled from the spec: \<^verbatim>\<open>FlightServer\<close> (runtime/flight/flight_server.py) is not among
  the sources. The spec gives its contract: \<^verbatim>\<open>upload(location, data, object_id)\<close>,
  \<^verbatim>\<open>download(location, object_id)\<close> and \<^verbatim>\<open>drop(location, object_ids)\<close> on a store addressed
  by a location and a string key. Downloading a key that is not stored is an error.

  \<^verbatim>\<open>uuid4()\<close> draws the next value of a source of identifiers. The world is the store
  together with that source.
\<close>

record 'a world =
  flight :: "string \<times> string \<Rightarrow> 'a pyval option"
  uuid4_source :: "nat \<Rightarrow> UUID"
  uuid4_drawn :: nat

definition uuid4 :: "'a world \<Rightarrow> UUID \<times> 'a world" where
  "uuid4 w = (uuid4_source w (uuid4_drawn w), w\<lparr>uuid4_drawn := Suc (uuid4_drawn w)\<rparr>)"

definition FlightServer_upload_table :: "'a world \<Rightarrow> string \<Rightarrow> 'a pyval \<Rightarrow> string \<Rightarrow> 'a world" where
  "FlightServer_upload_table w location table object_id =
     w\<lparr>flight := (flight w)((location, object_id) \<mapsto> table)\<rparr>"

definition FlightServer_download_table :: "'a world \<Rightarrow> string \<Rightarrow> string \<Rightarrow> 'a error + 'a pyval" where
  "FlightServer_download_table w location object_id =
     (case flight w (location, object_id) of
        None \<Rightarrow> Inl (KeyError object_id)
      | Some table \<Rightarrow> Inr table)"

definition FlightServer_drop_tables :: "'a world \<Rightarrow> string \<Rightarrow> string set \<Rightarrow> 'a world" where
  "FlightServer_drop_tables w location table_keys =
     w\<lparr>flight := (\<lambda>(l, k). if l = location \<and> k \<in> table_keys then None else flight w (l, k))\<rparr>"

text \<open>Truth value of an \<^verbatim>\<open>Optional[str]\<close>: \<^verbatim>\<open>None\<close> and the empty string are false.\<close>

fun truthy_location :: "string option \<Rightarrow> bool" where
  "truthy_location None = False"
| "truthy_location (Some l) = (l \<noteq> [])"

section \<open>ComputeFrameWork (abstract_plugins/compute_frame_work.py)\<close>

text \<open>
  The constructor, the transform methods, the calculation pipeline with its validation and
  filter steps, the upload and drop methods and the bookkeeping of satisfied children.
  Where an error message interpolates the \<^verbatim>\<open>repr\<close> of a method or a type, the model keeps
  the fixed part of the text.
\<close>

datatype ParallelizationModes = SYNC | THREADING | MULTIPROCESSING

text \<open>
  The members of \<^verbatim>\<open>WrapperFunctionEnum\<close> (function_extender.py, not among the sources)
  that the framework passes to \<^verbatim>\<open>get_function_extender\<close>.
\<close>

datatype WrapperFunctionEnum =
  FEATURE_GROUP_CALCULATE_FEATURE | VALIDATE_INPUT_FEATURE | VALIDATE_OUTPUT_FEATURE

type_synonym 'a feature_fn = "'a pyval \<Rightarrow> 'a FeatureSet \<Rightarrow> 'a error + 'a pyval"

text \<open>
  The feature group is passed as \<^verbatim>\<open>Any\<close>; the framework calls three of its methods. An
  extender is a callable that wraps one of them and says which it wraps.
\<close>

record 'a feature_group =
  validate_input_features :: "'a feature_fn"
  calculate_feature :: "'a feature_fn"
  validate_output_features :: "'a feature_fn"

record 'a extender =
  wraps :: "WrapperFunctionEnum set"
  extender_call :: "'a feature_fn \<Rightarrow> 'a pyval \<Rightarrow> 'a FeatureSet \<Rightarrow> 'a error + 'a pyval"

text \<open>
  \<^verbatim>\<open>ComputeFrameworkTransformMap\<close> (cfw_transformer.py) is not among the sources: the model
  takes it as \<open>None\<close> when its \<^verbatim>\<open>transform_map\<close> is empty, and as its \<^verbatim>\<open>transform\<close> function
  (of the data and the expected type) otherwise.
\<close>

type_synonym 'a ComputeFrameworkTransformMap =
  "('a pyval \<Rightarrow> string option \<Rightarrow> 'a error + 'a pyval) option"

text \<open>
  A framework class: the methods a subclass may override. \<^verbatim>\<open>get_framework_transform_functions\<close>
  returns a function together with its parameter, or \<^verbatim>\<open>None\<close>; the model keeps the function
  with the parameter applied. \<open>transform_method\<close> is \<open>None\<close> for a class that inherits
  \<^verbatim>\<open>transform\<close>, and the overriding method (of the instance's data, the data and the feature
  names) otherwise.
\<close>

record 'a cfw_class =
  class_name :: string
  expected_data_framework :: "string option"
  filter_engine_method :: "'a error + 'a filter_engine"
  get_framework_transform_functions :: "bool \<Rightarrow> string \<Rightarrow> ('a pyval \<Rightarrow> 'a error + 'a pyval) option"
  merge_engine_method :: "'a error + ('a pyval, 'a) merge_engine"
  set_column_names_method :: "'a pyval \<Rightarrow> string set \<Rightarrow> 'a error + string set"
  transform_method :: "('a pyval \<Rightarrow> 'a pyval \<Rightarrow> string set \<Rightarrow> 'a error + 'a pyval) option"
  default_transform_map :: "'a ComputeFrameworkTransformMap"

definition ComputeFrameWork_class :: "string \<Rightarrow> 'a ComputeFrameworkTransformMap \<Rightarrow> 'a cfw_class" where
  "ComputeFrameWork_class cls_name tm =
     \<lparr>class_name = cls_name,
      expected_data_framework = None,
      filter_engine_method = Inl (NotImplementedError []),
      get_framework_transform_functions = (\<lambda>from_other other. None),
      merge_engine_method = Inl (NotImplementedError
        (''Merge functionality is for this compute framework not implemented '' @ cls_name @ ''.'')),
      set_column_names_method = (\<lambda>d names. Inr names),
      transform_method = None,
      default_transform_map = tm\<rparr>"

record 'a ComputeFrameWork =
  mode :: ParallelizationModes
  data :: "'a pyval"
  children_if_root :: "UUID set"
  already_calculated_children_tracker :: "UUID set"
  column_names :: "string set"
  function_extender :: "'a extender list"
  uuid :: UUID
  object_ids :: "string list"

text \<open>
  The default of the parameter \<^verbatim>\<open>uuid\<close> is the expression \<^verbatim>\<open>uuid4()\<close> in the signature of
  \<^verbatim>\<open>__init__\<close>: Python evaluates it once, when the \<^verbatim>\<open>def\<close> statement runs while the class
  body is executed. \<open>define_ComputeFrameWork\<close> is that moment; the constructor receives
  the value as \<open>default_uuid\<close>.
\<close>

definition define_ComputeFrameWork :: "'a world \<Rightarrow> UUID \<times> 'a world" where
  "define_ComputeFrameWork w = uuid4 w"

definition ComputeFrameWork_init ::
  "UUID \<Rightarrow> ParallelizationModes \<Rightarrow> UUID set \<Rightarrow> UUID option \<Rightarrow> 'a extender list option
     \<Rightarrow> 'a ComputeFrameWork" where
  "ComputeFrameWork_init default_uuid mode_arg children uuid_arg function_extender_arg =
     \<lparr>mode = mode_arg,
      data = PyNone,
      children_if_root = children,
      already_calculated_children_tracker = {},
      column_names = {},
      function_extender = (case function_extender_arg of Some fe \<Rightarrow> fe | None \<Rightarrow> []),
      uuid = (case uuid_arg of Some u \<Rightarrow> u | None \<Rightarrow> default_uuid),
      object_ids = []\<rparr>"

text \<open>\<^verbatim>\<open>isinstance\<close> and \<^verbatim>\<open>type\<close> on the values of the model.\<close>

fun isinstance :: "'a pyval \<Rightarrow> string \<Rightarrow> bool" where
  "isinstance PyNone T = (T = ''NoneType'' \<or> T = ''object'')"
| "isinstance (PyBool b) T = (T = ''bool'' \<or> T = ''int'' \<or> T = ''object'')"
| "isinstance (PyInt i) T = (T = ''int'' \<or> T = ''object'')"
| "isinstance (PyStr s) T = (T = ''str'' \<or> T = ''object'')"
| "isinstance (PyObj ident classes content) T = (T \<in> set classes)"

fun type_name :: "'a pyval \<Rightarrow> string" where
  "type_name PyNone = ''NoneType''"
| "type_name (PyBool b) = ''bool''"
| "type_name (PyInt i) = ''int''"
| "type_name (PyStr s) = ''str''"
| "type_name (PyObj ident classes content) = (case classes of [] \<Rightarrow> ''object'' | c # _ \<Rightarrow> c)"

definition pa_Table :: string where
  "pa_Table = ''pyarrow.Table''"

text \<open>
  \<^verbatim>\<open>isinstance(data, self.expected_data_framework())\<close> raises \<^verbatim>\<open>TypeError\<close> when the
  expected framework is \<^verbatim>\<open>None\<close>, as it is in the base class.
\<close>

definition isinstance_expected :: "'a cfw_class \<Rightarrow> 'a pyval \<Rightarrow> 'a error + bool" where
  "isinstance_expected K d =
     (case expected_data_framework K of
        None \<Rightarrow> Inl (TypeError ''isinstance() arg 2 must be a type, a tuple of types, or a union'')
      | Some T \<Rightarrow> Inr (isinstance d T))"

definition transform_refactored ::
  "'a cfw_class \<Rightarrow> 'a pyval \<Rightarrow> 'a ComputeFrameworkTransformMap \<Rightarrow> 'a error + 'a pyval" where
  "transform_refactored K d transform_map =
     (case isinstance_expected K d of
        Inl e \<Rightarrow> Inl e
      | Inr True \<Rightarrow> Inr d
      | Inr False \<Rightarrow>
         (case transform_map of
            Some tm_transform \<Rightarrow> tm_transform d (expected_data_framework K)
          | None \<Rightarrow>
             (case get_framework_transform_functions K True (type_name d) of
                Some func \<Rightarrow> func d
              | None \<Rightarrow> Inr PyNone)))"

definition transform ::
  "'a cfw_class \<Rightarrow> 'a pyval \<Rightarrow> string set \<Rightarrow> 'a ComputeFrameworkTransformMap \<Rightarrow> 'a error + 'a pyval" where
  "transform K d feature_names transform_map =
     (case transform_refactored K d transform_map of
        Inl e \<Rightarrow> Inl e
      | Inr transformed_data \<Rightarrow>
         (if transformed_data \<noteq> PyNone then Inr transformed_data else Inr d))"

text \<open>
  \<^verbatim>\<open>self.transform(data, names)\<close> as the pipeline calls it: the overriding method of the
  class if there is one, else the inherited \<^verbatim>\<open>transform\<close> with the default transform map.
\<close>

definition self_transform ::
  "'a cfw_class \<Rightarrow> 'a ComputeFrameWork \<Rightarrow> 'a pyval \<Rightarrow> string set \<Rightarrow> 'a error + 'a pyval" where
  "self_transform K self d feature_names =
     (case transform_method K of
        Some m \<Rightarrow> m (data self) d feature_names
      | None \<Rightarrow> transform K d feature_names (default_transform_map K))"

definition set_column_names :: "'a cfw_class \<Rightarrow> 'a ComputeFrameWork \<Rightarrow> 'a error + 'a ComputeFrameWork" where
  "set_column_names K self =
     (case set_column_names_method K (data self) (column_names self) of
        Inl e \<Rightarrow> Inl e
      | Inr names \<Rightarrow> Inr (self\<lparr>column_names := names\<rparr>))"

text \<open>
  The loop of \<^verbatim>\<open>get_function_extender\<close> over the extenders, with \<open>found\<close> the extender
  found so far. On a second extender that wraps the same function the code builds the
  message of a \<^verbatim>\<open>ValueError\<close> from \<^verbatim>\<open>found_extender.__name__\<close> and \<^verbatim>\<open>extender.__name__\<close>; the
  extenders are instances, which have no \<^verbatim>\<open>__name__\<close>, so building the message fails with an
  \<^verbatim>\<open>AttributeError\<close> before the \<^verbatim>\<open>ValueError\<close> is raised.
\<close>

fun find_extender ::
  "'a extender list \<Rightarrow> WrapperFunctionEnum \<Rightarrow> 'a extender option \<Rightarrow> 'a error + 'a extender option" where
  "find_extender [] e found = Inr found"
| "find_extender (x # xs) e found =
     (if e \<in> wraps x
      then (case found of
              Some y \<Rightarrow> Inl (AttributeError ''__name__'')
            | None \<Rightarrow> find_extender xs e (Some x))
      else find_extender xs e found)"

definition get_function_extender ::
  "'a ComputeFrameWork \<Rightarrow> WrapperFunctionEnum \<Rightarrow> 'a error + 'a extender option" where
  "get_function_extender self e = find_extender (function_extender self) e None"

definition run_validate_input_features ::
  "'a ComputeFrameWork \<Rightarrow> 'a feature_group \<Rightarrow> 'a FeatureSet \<Rightarrow> 'a error + unit" where
  "run_validate_input_features self fg fs =
     (if data self = PyNone then Inr ()
      else (case get_function_extender self VALIDATE_INPUT_FEATURE of
              Inl e \<Rightarrow> Inl e
            | Inr ext \<Rightarrow>
               (case (case ext of
                        None \<Rightarrow> validate_input_features fg (data self) fs
                      | Some x \<Rightarrow> extender_call x (validate_input_features fg) (data self) fs) of
                  Inl e \<Rightarrow> Inl e
                | Inr result \<Rightarrow>
                   (if result = PyNone \<or> result = PyBool True then Inr ()
                    else Inl (ValueError result)))))"

definition run_validate_output_features ::
  "'a ComputeFrameWork \<Rightarrow> 'a feature_group \<Rightarrow> 'a FeatureSet \<Rightarrow> 'a error + unit" where
  "run_validate_output_features self fg fs =
     (if data self = PyNone then Inr ()
      else (case get_function_extender self VALIDATE_OUTPUT_FEATURE of
              Inl e \<Rightarrow> Inl e
            | Inr ext \<Rightarrow>
               (case (case ext of
                        None \<Rightarrow> validate_output_features fg (data self) fs
                      | Some x \<Rightarrow> extender_call x (validate_output_features fg) (data self) fs) of
                  Inl e \<Rightarrow> Inl e
                | Inr result \<Rightarrow>
                   (if result = PyNone \<or> result = PyBool True then Inr ()
                    else Inl (ValueError result)))))"

definition run_calculate_feature ::
  "'a ComputeFrameWork \<Rightarrow> 'a feature_group \<Rightarrow> 'a FeatureSet \<Rightarrow> 'a error + 'a pyval" where
  "run_calculate_feature self fg fs =
     (case get_function_extender self FEATURE_GROUP_CALCULATE_FEATURE of
        Inl e \<Rightarrow> Inl e
      | Inr None \<Rightarrow> calculate_feature fg (data self) fs
      | Inr (Some x) \<Rightarrow> extender_call x (calculate_feature fg) (data self) fs)"

text \<open>
  \<^verbatim>\<open>set_filter_engine\<close> binds the framework's \<^verbatim>\<open>filter_engine\<close> method to the feature set
  and calls it; only \<^verbatim>\<open>NotImplementedError\<close> is caught.
\<close>

definition set_filter_engine :: "'a cfw_class \<Rightarrow> 'a FeatureSet \<Rightarrow> 'a error + 'a FeatureSet" where
  "set_filter_engine K fs =
     (let fs1 = fs\<lparr>filter_engine := Some (filter_engine_method K)\<rparr>
      in (case filter_engine_method K of
            Inl (NotImplementedError m) \<Rightarrow> Inr fs1
          | Inl e \<Rightarrow> Inl e
          | Inr engine \<Rightarrow>
             (if \<not> is_base_filter_engine_subclass engine
              then Inl (ValueError (PyStr (''Filter engine not supported by '' @ class_name K)))
              else Inr fs1)))"

definition run_final_filter :: "'a pyval \<Rightarrow> 'a FeatureSet \<Rightarrow> 'a error + 'a pyval" where
  "run_final_filter d fs =
     (case filter_engine fs of
        None \<Rightarrow> Inr d
      | Some (Inl (NotImplementedError m)) \<Rightarrow> Inr d
      | Some (Inl e) \<Rightarrow> Inl e
      | Some (Inr engine) \<Rightarrow>
         (case final_filters engine of
            Inl (NotImplementedError m) \<Rightarrow> Inr d
          | Inl e \<Rightarrow> Inl e
          | Inr r \<Rightarrow>
             (if r = PyBool False then Inr d
              else apply_filters engine d (features fs) (filters fs))))"

text \<open>Uploading: \<^verbatim>\<open>upload_table\<close> draws a fresh uuid only when it is given no object id.\<close>

definition upload_table ::
  "'a cfw_class \<Rightarrow> 'a ComputeFrameWork \<Rightarrow> 'a world \<Rightarrow> string \<Rightarrow> UUID option
     \<Rightarrow> 'a error + (string \<times> 'a ComputeFrameWork \<times> 'a world)" where
  "upload_table K self w location object_id =
     (let (oid, w1) = (case object_id of None \<Rightarrow> uuid4 w | Some u \<Rightarrow> (u, w));
          object_id_str = str_of_uuid oid
      in (case (case get_framework_transform_functions K False pa_Table of
                  Some func \<Rightarrow> func (data self)
                | None \<Rightarrow> Inr (data self)) of
            Inl e \<Rightarrow> Inl e
          | Inr d \<Rightarrow>
             Inr (object_id_str,
                  self\<lparr>data := d, object_ids := object_ids self @ [object_id_str]\<rparr>,
                  FlightServer_upload_table w1 location d object_id_str)))"

definition upload_finished_data ::
  "'a cfw_class \<Rightarrow> 'a ComputeFrameWork \<Rightarrow> 'a world \<Rightarrow> string
     \<Rightarrow> 'a error + (string \<times> 'a ComputeFrameWork \<times> 'a world)" where
  "upload_finished_data K self w location = upload_table K self w location (Some (uuid self))"

definition convert_flyserver_data_back :: "'a cfw_class \<Rightarrow> 'a pyval \<Rightarrow> 'a error + 'a pyval" where
  "convert_flyserver_data_back K d =
     (if \<not> isinstance d pa_Table then Inr d
      else (case isinstance_expected K d of
              Inl e \<Rightarrow> Inl e
            | Inr True \<Rightarrow> Inr d
            | Inr False \<Rightarrow>
               (case get_framework_transform_functions K True pa_Table of
                  Some func \<Rightarrow> func d
                | None \<Rightarrow> Inl (ValueError (PyStr
                    (''Conversion from '' @ type_name d @ '' is not supported. This can be created, when a flyserver was used.''))))))"

definition drop_data :: "'a world \<Rightarrow> string set \<Rightarrow> string \<Rightarrow> 'a world" where
  "drop_data w table_keys location = FlightServer_drop_tables w location table_keys"

definition drop_last_data ::
  "'a ComputeFrameWork \<Rightarrow> 'a world \<Rightarrow> string option \<Rightarrow> 'a ComputeFrameWork \<times> 'a world" where
  "drop_last_data self w location =
     (let w1 = (case data self of
                  PyStr key \<Rightarrow>
                    (case location of
                       Some l \<Rightarrow> (if l \<noteq> [] then drop_data w {key} l else w)
                     | None \<Rightarrow> w)
                | _ \<Rightarrow> w)
      in (self\<lparr>data := PyNone\<rparr>, w1))"

text \<open>The result of the bookkeeping call is a \<^verbatim>\<open>Union[bool, frozenset[UUID]]\<close>.\<close>

datatype children_result = Flag bool | Children "UUID set"

definition add_already_calculated_children_and_drop_if_possible ::
  "'a ComputeFrameWork \<Rightarrow> 'a world \<Rightarrow> UUID set \<Rightarrow> string option
     \<Rightarrow> children_result \<times> 'a ComputeFrameWork \<times> 'a world" where
  "add_already_calculated_children_and_drop_if_possible self w children location =
     (let self1 = self\<lparr>already_calculated_children_tracker :=
                         already_calculated_children_tracker self \<union> children\<rparr>
      in if children_if_root self1 \<subseteq> already_calculated_children_tracker self1
         then (let (self2, w2) = drop_last_data self1 w location in (Flag True, self2, w2))
         else if length (object_ids self1) > 0
         then (Children (children_if_root self1), self1, w)
         else (Flag False, self1, w))"

text \<open>
  The pipeline of one unit. The parameter \<^verbatim>\<open>data\<close> defaults to \<^verbatim>\<open>None\<close>. The result is
  the returned value together with the instance and the world as the call leaves them;
  a raised error ends the run.
\<close>

definition run_calculation ::
  "'a cfw_class \<Rightarrow> 'a ComputeFrameWork \<Rightarrow> 'a world \<Rightarrow> 'a feature_group \<Rightarrow> 'a FeatureSet
     \<Rightarrow> string option \<Rightarrow> 'a pyval \<Rightarrow> 'a error + ('a pyval \<times> 'a ComputeFrameWork \<times> 'a world)" where
  "run_calculation K self w fg fs location data_arg =
     (let self1 = (if data_arg \<noteq> PyNone then self\<lparr>data := data_arg\<rparr> else self)
      in case run_validate_input_features self1 fg fs of
           Inl e \<Rightarrow> Inl e
         | Inr u1 \<Rightarrow>
       (case set_filter_engine K fs of
           Inl e \<Rightarrow> Inl e
         | Inr fs1 \<Rightarrow>
       (case run_calculate_feature self1 fg fs1 of
           Inl e \<Rightarrow> Inl e
         | Inr d1 \<Rightarrow>
       (case run_final_filter d1 fs1 of
           Inl e \<Rightarrow> Inl e
         | Inr d2 \<Rightarrow>
       (case self_transform K self1 d2 (get_all_names fs1) of
           Inl e \<Rightarrow> Inl e
         | Inr d3 \<Rightarrow>
       (case set_column_names K (self1\<lparr>data := d3\<rparr>) of
           Inl e \<Rightarrow> Inl e
         | Inr self3 \<Rightarrow>
       (case run_validate_output_features self3 fg fs1 of
           Inl e \<Rightarrow> Inl e
         | Inr u2 \<Rightarrow>
       (case location of
           None \<Rightarrow> Inr (PyNone, self3, w)
         | Some l \<Rightarrow>
            (if l = [] then Inr (PyNone, self3, w)
             else if card (children_if_root self3)
                       > card (already_calculated_children_tracker self3) + length (features fs1)
             then Inr (data self3, self3, w)
             else (case upload_finished_data K self3 w l of
                     Inl e \<Rightarrow> Inl e
                   | Inr (oid, self4, w4) \<Rightarrow>
                      Inr (PyStr oid, self4\<lparr>data := PyStr oid\<rparr>, w4)))))))))))"

section \<open>JoinStep (mloda_core/core/step/join_step.py)\<close>

text \<open>
  Modelled from the spec: \<^verbatim>\<open>CfwManager\<close> (core/cfw_manager.py) is not among the sources.
  The join step reads its location and, by the spec, whether the destination's id is
  already known to the exchange registry: \<^verbatim>\<open>get_uuid_flyway_datasets\<close> gives the object
  ids registered for a framework uuid, or \<^verbatim>\<open>None\<close>. The step tests the truth value of the
  answer, so a registered empty set counts as unregistered.
\<close>

record CfwManager =
  manager_location :: "string option"
  uuid_flyway_datasets :: "UUID \<Rightarrow> UUID set option"

definition get_location :: "CfwManager \<Rightarrow> string option" where
  "get_location reg = manager_location reg"

definition get_uuid_flyway_datasets :: "CfwManager \<Rightarrow> UUID \<Rightarrow> UUID set option" where
  "get_uuid_flyway_datasets reg cf_uuid = uuid_flyway_datasets reg cf_uuid"

fun truthy_datasets :: "UUID set option \<Rightarrow> bool" where
  "truthy_datasets None = False"
| "truthy_datasets (Some s) = (s \<noteq> {})"

text \<open>
  A join step. A framework type (\<^verbatim>\<open>Type[ComputeFrameWork]\<close>) is a class object, compared
  by identity; \<open>'f\<close> stands for the class objects. \<open>location\<close> is the attribute that
  \<^verbatim>\<open>execute\<close> assigns.
\<close>

record 'f JoinStep =
  link :: Link
  left_framework :: 'f
  right_framework :: 'f
  required_uuids :: "UUID set"
  left_framework_uuids :: "UUID set"
  right_framework_uuids :: "UUID set"
  step_uuid :: UUID
  step_is_done :: bool
  location :: "string option"

text \<open>The construction draws the step's uuid; \<open>location\<close> is not yet assigned.\<close>

definition JoinStep_init ::
  "'a world \<Rightarrow> Link \<Rightarrow> 'f \<Rightarrow> 'f \<Rightarrow> UUID set \<Rightarrow> UUID set \<Rightarrow> UUID set \<Rightarrow> 'f JoinStep \<times> 'a world" where
  "JoinStep_init w lnk lf rf required lus rus =
     (let (u, w1) = uuid4 w
      in (\<lparr>link = lnk, left_framework = lf, right_framework = rf, required_uuids = required,
           left_framework_uuids = lus, right_framework_uuids = rus, step_uuid = u,
           step_is_done = False, location = None\<rparr>, w1))"

text \<open>The \<^verbatim>\<open>from_cfw\<close> argument: a framework instance, or only its uuid.\<close>

datatype 'a from_cfw = FromUUID UUID | FromCfw "'a ComputeFrameWork"

definition get_data ::
  "'f JoinStep \<Rightarrow> 'a cfw_class \<Rightarrow> 'a world \<Rightarrow> 'a from_cfw \<Rightarrow> 'a error + 'a pyval" where
  "get_data self K w source =
     (case source of
        FromUUID u \<Rightarrow>
          (if truthy_location (location self)
           then (case FlightServer_download_table w (the (location self)) (str_of_uuid u) of
                   Inl e \<Rightarrow> Inl e
                 | Inr d \<Rightarrow> convert_flyserver_data_back K d)
           else Inl (ValueError (PyStr ''From_cfw is a UUID, but we are not using flightserver.'')))
      | FromCfw c \<Rightarrow> Inr (data c))"

definition matched :: "'f JoinStep \<Rightarrow> 'f \<Rightarrow> UUID \<Rightarrow> UUID option" where
  "matched self other_framework feature_id =
     (if feature_id \<notin> required_uuids self then None
      else if other_framework = left_framework self then Some (step_uuid self)
      else if other_framework = right_framework self then Some (step_uuid self)
      else None)"

text \<open>
  \<^verbatim>\<open>execute\<close> of the step on the destination instance \<open>cfw\<close> of class \<open>K\<close>. The result
  is the step, the destination and the world as the call leaves them; the call returns
  \<^verbatim>\<open>None\<close>. The unused parameter \<^verbatim>\<open>data\<close> is left out.
\<close>

definition execute ::
  "'f JoinStep \<Rightarrow> CfwManager \<Rightarrow> 'a cfw_class \<Rightarrow> 'a ComputeFrameWork \<Rightarrow> 'a world
     \<Rightarrow> 'a from_cfw option \<Rightarrow> 'a error + ('f JoinStep \<times> 'a ComputeFrameWork \<times> 'a world)" where
  "execute self cfw_register K cfw w source =
     (let self1 = self\<lparr>location := get_location cfw_register\<rparr>
      in case source of
           None \<Rightarrow> Inl (ValueError (PyStr ''From_cfw should not be none for join step.''))
         | Some src \<Rightarrow>
       (case get_data self1 K w src of
           Inl e \<Rightarrow> Inl e
         | Inr from_cfw_data \<Rightarrow>
       (case merge_engine_method K of
           Inl e \<Rightarrow> Inl e
         | Inr engine \<Rightarrow>
       (case merge engine (data cfw) from_cfw_data (jointype (link self1))
                   (left_index (link self1)) (right_index (link self1)) of
           Inl e \<Rightarrow> Inl e
         | Inr merged \<Rightarrow>
            (let cfw1 = cfw\<lparr>data := merged\<rparr>
             in if truthy_location (location self1)
                   \<and> truthy_datasets (get_uuid_flyway_datasets cfw_register (uuid cfw1))
                then (case upload_finished_data K cfw1 w (the (location self1)) of
                        Inl e \<Rightarrow> Inl e
                      | Inr (oid, cfw2, w2) \<Rightarrow> Inr (self1, cfw2, w2))
                else Inr (self1, cfw1, w))))))"

section \<open>Notions used in the statements\<close>

text \<open>
  The result of the validator call as \<^verbatim>\<open>run_validate_input_features\<close> and
  \<^verbatim>\<open>run_validate_output_features\<close> make it (directly, or through the extender that wraps
  it), and the instance as the pipeline of \<^verbatim>\<open>run_calculation\<close> leaves it after the output
  validation, before the location is looked at.
\<close>

definition input_validation_result ::
  "'a ComputeFrameWork \<Rightarrow> 'a feature_group \<Rightarrow> 'a FeatureSet \<Rightarrow> 'a error + 'a pyval" where
  "input_validation_result self fg fs =
     (case get_function_extender self VALIDATE_INPUT_FEATURE of
        Inl e \<Rightarrow> Inl e
      | Inr None \<Rightarrow> validate_input_features fg (data self) fs
      | Inr (Some x) \<Rightarrow> extender_call x (validate_input_features fg) (data self) fs)"

definition output_validation_result ::
  "'a ComputeFrameWork \<Rightarrow> 'a feature_group \<Rightarrow> 'a FeatureSet \<Rightarrow> 'a error + 'a pyval" where
  "output_validation_result self fg fs =
     (case get_function_extender self VALIDATE_OUTPUT_FEATURE of
        Inl e \<Rightarrow> Inl e
      | Inr None \<Rightarrow> validate_output_features fg (data self) fs
      | Inr (Some x) \<Rightarrow> extender_call x (validate_output_features fg) (data self) fs)"

definition pipeline_result ::
  "'a cfw_class \<Rightarrow> 'a ComputeFrameWork \<Rightarrow> 'a feature_group \<Rightarrow> 'a FeatureSet \<Rightarrow> 'a pyval
     \<Rightarrow> 'a error + 'a ComputeFrameWork" where
  "pipeline_result K self fg fs data_arg =
     (let self1 = (if data_arg \<noteq> PyNone then self\<lparr>data := data_arg\<rparr> else self)
      in case run_validate_input_features self1 fg fs of
           Inl e \<Rightarrow> Inl e
         | Inr u1 \<Rightarrow>
       (case set_filter_engine K fs of
           Inl e \<Rightarrow> Inl e
         | Inr fs1 \<Rightarrow>
       (case run_calculate_feature self1 fg fs1 of
           Inl e \<Rightarrow> Inl e
         | Inr d1 \<Rightarrow>
       (case run_final_filter d1 fs1 of
           Inl e \<Rightarrow> Inl e
         | Inr d2 \<Rightarrow>
       (case self_transform K self1 d2 (get_all_names fs1) of
           Inl e \<Rightarrow> Inl e
         | Inr d3 \<Rightarrow>
       (case set_column_names K (self1\<lparr>data := d3\<rparr>) of
           Inl e \<Rightarrow> Inl e
         | Inr self3 \<Rightarrow>
       (case run_validate_output_features self3 fg fs1 of
           Inl e \<Rightarrow> Inl e
         | Inr u2 \<Rightarrow> Inr self3)))))))"

section \<open>Example instances\<close>






definition example_filter_engine :: "nat list filter_engine" where
  "example_filter_engine =
     \<lparr>is_base_filter_engine_subclass = True,
      final_filters = Inr (PyBool False),
      apply_filters = (\<lambda>d fs flt. Inr d)\<rparr>"

definition example_engine :: "(nat list pyval, nat list) merge_engine" where
  "example_engine =
     (BaseMergeEngine ''ExampleMergeEngine'')
       \<lparr>merge_inner := (\<lambda>left_data right_data li ri.
           case (left_data, right_data) of
             (PyObj i cs xs, PyObj j ds ys) \<Rightarrow>
               Inr (PyObj (Suc (max i j)) cs (filter (\<lambda>x. x \<in> set ys) xs))
           | _ \<Rightarrow> Inl (TypeError ''cannot merge''))\<rparr>"

definition example_class :: "nat list cfw_class" where
  "example_class =
     (ComputeFrameWork_class ''ExampleTable'' None)
       \<lparr>expected_data_framework := Some pa_Table,
        merge_engine_method := Inr example_engine\<rparr>"

definition example_world :: "nat list world" where
  "example_world =
     \<lparr>flight = Map.empty, uuid4_source = (\<lambda>n. UUID (replicate (Suc n) CHR ''u'')),
      uuid4_drawn = 0\<rparr>"

definition example_table :: "nat list pyval" where
  "example_table = PyObj 1 [pa_Table, ''object''] [10, 20, 30]"

definition example_cfw :: "nat list ComputeFrameWork" where
  "example_cfw =
     ComputeFrameWork_init (UUID ''default'') MULTIPROCESSING {UUID ''child-1''}
       (Some (UUID ''cfw-1'')) None"

definition example_group :: "nat list feature_group" where
  "example_group =
     \<lparr>validate_input_features = (\<lambda>d fs. Inr (PyBool False)),
      calculate_feature = (\<lambda>d fs. Inr example_table),
      validate_output_features = (\<lambda>d fs. Inr (PyBool True))\<rparr>"

definition example_message_group :: "nat list feature_group" where
  "example_message_group =
     \<lparr>validate_input_features = (\<lambda>d fs. Inr (PyStr ''column missing'')),
      calculate_feature = (\<lambda>d fs. Inr example_table),
      validate_output_features = (\<lambda>d fs. Inr (PyInt 1))\<rparr>"

definition example_feature :: "string \<Rightarrow> Feature" where
  "example_feature n =
     \<lparr>name = FeatureName n, feature_options = Options [(''source'', n)],
      feature_uuid = UUID (''feature-'' @ n), initial_requested_data = True\<rparr>"

definition example_features :: "nat list FeatureSet" where
  "example_features = add (FeatureSet_init example_filter_engine) (example_feature ''a'')"

definition example_step :: "string JoinStep" where
  "example_step =
     \<lparr>link = \<lparr>jointype = INNER, left_index = Index [''id''], right_index = Index [''id''],
               link_uuid = UUID ''link-1''\<rparr>,
      left_framework = ''ExampleTable'', right_framework = ''ExampleTable'',
      required_uuids = {UUID ''feature-a''}, left_framework_uuids = {UUID ''feature-a''},
      right_framework_uuids = {UUID ''feature-b''}, step_uuid = UUID ''step-1'',
      step_is_done = False, location = None\<rparr>"

definition example_register :: CfwManager where
  "example_register =
     \<lparr>manager_location = Some ''grpc://localhost:8815'',
      uuid_flyway_datasets = (\<lambda>u. if u = UUID ''cfw-1'' then Some {UUID ''cfw-1''} else None)\<rparr>"

definition example_uploaded_cfw :: "nat list ComputeFrameWork" where
  "example_uploaded_cfw = example_cfw\<lparr>data := PyStr ''cfw-1'', object_ids := [''cfw-1'']\<rparr>"

definition example_uploaded_world :: "nat list world" where
  "example_uploaded_world =
     FlightServer_upload_table example_world ''grpc://localhost:8815'' example_table ''cfw-1''"

definition example_source :: "nat list from_cfw" where
  "example_source =
     FromCfw (example_cfw\<lparr>data := PyObj 2 [pa_Table, ''object''] [20, 30, 40],
                         uuid := UUID ''cfw-2''\<rparr>)"

section \<open>Merge engine\<close>





























section \<open>Bookkeeping of satisfied children\<close>

text \<open>
  C2. \<^verbatim>\<open>add_already_calculated_children_and_drop_if_possible(children, location)\<close> adds the
  children to the tracker and has one of three results. Once the declared children are all
  tracked it returns \<^verbatim>\<open>True\<close> and the instance's data is \<^verbatim>\<open>None\<close>; when the data was an
  object id and the location is given and not empty, the object is dropped from the
  exchange service, and otherwise the exchange service is untouched. If the declared
  children are not all tracked and an object id has been uploaded, it returns the declared
  children; otherwise it returns \<^verbatim>\<open>False\<close>; in both cases data and exchange service are
  unchanged. After a drop, calling it again with the full declared set, for any location,
  returns \<^verbatim>\<open>True\<close> and changes neither the instance nor the exchange service.
\<close>
theorem children_bookkeeping:
  "(let tracked = already_calculated_children_tracker self \<union> children;
        out = add_already_calculated_children_and_drop_if_possible self w children loc;
        self' = fst (snd out);
        w' = snd (snd out)
    in already_calculated_children_tracker self' = tracked
   \<and> (children_if_root self \<subseteq> tracked \<longrightarrow>
        fst out = Flag True \<and> data self' = PyNone
        \<and> (\<forall>key l. data self = PyStr key \<and> loc = Some l \<and> l \<noteq> [] \<longrightarrow>
              w' = FlightServer_drop_tables w l {key} \<and> flight w' (l, key) = None)
        \<and> ((\<forall>key. data self \<noteq> PyStr key) \<or> \<not> truthy_location loc \<longrightarrow> w' = w)
        \<and> (\<forall>loc2. add_already_calculated_children_and_drop_if_possible self' w'
                      (children_if_root self) loc2 = (Flag True, self', w')))
   \<and> (\<not> children_if_root self \<subseteq> tracked \<and> object_ids self \<noteq> [] \<longrightarrow>
        fst out = Children (children_if_root self) \<and> data self' = data self \<and> w' = w)
   \<and> (\<not> children_if_root self \<subseteq> tracked \<and> object_ids self = [] \<longrightarrow>
        fst out = Flag False \<and> data self' = data self \<and> w' = w))"
  by (auto simp: add_already_calculated_children_and_drop_if_possible_def drop_last_data_def
      drop_data_def FlightServer_drop_tables_def Let_def Un_absorb2
      split: pyval.splits option.splits prod.splits)

theorem children_bookkeeping_witness:
  "children_if_root example_uploaded_cfw
     \<subseteq> already_calculated_children_tracker example_uploaded_cfw \<union> {UUID ''child-1''}
   \<and> flight example_uploaded_world (''grpc://localhost:8815'', ''cfw-1'') = Some example_table
   \<and> fst (add_already_calculated_children_and_drop_if_possible example_uploaded_cfw
            example_uploaded_world {UUID ''child-1''} (Some ''grpc://localhost:8815'')) = Flag True
   \<and> data (fst (snd (add_already_calculated_children_and_drop_if_possible example_uploaded_cfw
            example_uploaded_world {UUID ''child-1''} (Some ''grpc://localhost:8815'')))) = PyNone
   \<and> flight (snd (snd (add_already_calculated_children_and_drop_if_possible example_uploaded_cfw
            example_uploaded_world {UUID ''child-1''} (Some ''grpc://localhost:8815''))))
         (''grpc://localhost:8815'', ''cfw-1'') = None
   \<and> add_already_calculated_children_and_drop_if_possible
         (fst (snd (add_already_calculated_children_and_drop_if_possible example_uploaded_cfw
            example_uploaded_world {UUID ''child-1''} (Some ''grpc://localhost:8815''))))
         (snd (snd (add_already_calculated_children_and_drop_if_possible example_uploaded_cfw
            example_uploaded_world {UUID ''child-1''} (Some ''grpc://localhost:8815''))))
         (children_if_root example_uploaded_cfw) (Some ''grpc://localhost:8815'')
       = (Flag True,
          snd (add_already_calculated_children_and_drop_if_possible example_uploaded_cfw
            example_uploaded_world {UUID ''child-1''} (Some ''grpc://localhost:8815'')))"
proof -
  let ?out = "add_already_calculated_children_and_drop_if_possible example_uploaded_cfw
            example_uploaded_world {UUID ''child-1''} (Some ''grpc://localhost:8815'')"
  have sub: "children_if_root example_uploaded_cfw
     \<subseteq> already_calculated_children_tracker example_uploaded_cfw \<union> {UUID ''child-1''}"
    by (simp add: example_uploaded_cfw_def example_cfw_def ComputeFrameWork_init_def)
  have d: "data example_uploaded_cfw = PyStr ''cfw-1''
           \<and> Some ''grpc://localhost:8815'' = Some ''grpc://localhost:8815''
           \<and> ''grpc://localhost:8815'' \<noteq> []"
    by (simp add: example_uploaded_cfw_def)
  have f: "flight example_uploaded_world (''grpc://localhost:8815'', ''cfw-1'') = Some example_table"
    by (simp add: example_uploaded_world_def FlightServer_upload_table_def)
  note t = children_bookkeeping [of example_uploaded_cfw "{UUID ''child-1''}"
        example_uploaded_world "Some ''grpc://localhost:8815''", unfolded Let_def]
  note done_case = t [THEN conjunct2, THEN conjunct1, THEN mp, OF sub]
  note r1 = done_case [THEN conjunct1]
  note r2 = done_case [THEN conjunct2, THEN conjunct1]
  note k = done_case [THEN conjunct2, THEN conjunct2, THEN conjunct1, THEN spec, THEN spec,
      THEN mp, OF d, THEN conjunct2]
  note again = done_case [THEN conjunct2, THEN conjunct2, THEN conjunct2, THEN conjunct2, THEN spec,
      of "Some ''grpc://localhost:8815''"]
  have again': "add_already_calculated_children_and_drop_if_possible (fst (snd ?out))
              (snd (snd ?out)) (children_if_root example_uploaded_cfw) (Some ''grpc://localhost:8815'')
              = (Flag True, snd ?out)"
    using again by simp
  show ?thesis
    apply (intro conjI)
         apply (rule sub)
        apply (rule f)
       apply (rule r1)
      apply (rule r2)
     apply (rule k)
    apply (rule again')
    done
qed

section \<open>Join-step routing\<close>

text \<open>
  C3. \<^verbatim>\<open>matched(framework_type, feature_id)\<close> returns the step's own uuid if and only if
  the feature id is among the step's required uuids and the framework type is the declared
  left or the declared right framework; in every other case it returns \<^verbatim>\<open>None\<close>, in
  particular when the feature id is not required although the framework type matches.
\<close>
theorem matched_routing:
  "(matched self fw u = Some (step_uuid self)
      \<longleftrightarrow> u \<in> required_uuids self \<and> (fw = left_framework self \<or> fw = right_framework self))
   \<and> (\<not> (u \<in> required_uuids self \<and> (fw = left_framework self \<or> fw = right_framework self))
      \<longrightarrow> matched self fw u = None)
   \<and> (u \<notin> required_uuids self \<longrightarrow> matched self (left_framework self) u = None)"
  by (simp add: matched_def)

theorem matched_routing_witness:
  "matched \<lparr>link = \<lparr>jointype = INNER, left_index = Index [''id''], right_index = Index [''id''],
                link_uuid = UUID ''l''\<rparr>,
       left_framework = ''PyarrowTable'', right_framework = ''PandasDataframe'',
       required_uuids = {UUID ''f1'', UUID ''f2''}, left_framework_uuids = {UUID ''f1''},
       right_framework_uuids = {UUID ''f2''}, step_uuid = UUID ''s'', step_is_done = False,
       location = None\<rparr>
     ''PandasDataframe'' (UUID ''f2'') = Some (UUID ''s'')
   \<and> matched \<lparr>link = \<lparr>jointype = INNER, left_index = Index [''id''], right_index = Index [''id''],
                link_uuid = UUID ''l''\<rparr>,
       left_framework = ''PyarrowTable'', right_framework = ''PandasDataframe'',
       required_uuids = {UUID ''f1'', UUID ''f2''}, left_framework_uuids = {UUID ''f1''},
       right_framework_uuids = {UUID ''f2''}, step_uuid = UUID ''s'', step_is_done = False,
       location = None\<rparr>
     ''PyarrowTable'' (UUID ''f3'') = None
   \<and> matched \<lparr>link = \<lparr>jointype = INNER, left_index = Index [''id''], right_index = Index [''id''],
                link_uuid = UUID ''l''\<rparr>,
       left_framework = ''PyarrowTable'', right_framework = ''PandasDataframe'',
       required_uuids = {UUID ''f1'', UUID ''f2''}, left_framework_uuids = {UUID ''f1''},
       right_framework_uuids = {UUID ''f2''}, step_uuid = UUID ''s'', step_is_done = False,
       location = None\<rparr>
     ''DuckDB'' (UUID ''f1'') = None"
  using matched_routing [of "\<lparr>link = \<lparr>jointype = INNER, left_index = Index [''id''], right_index = Index [''id''],
                link_uuid = UUID ''l''\<rparr>,
       left_framework = ''PyarrowTable'', right_framework = ''PandasDataframe'',
       required_uuids = {UUID ''f1'', UUID ''f2''}, left_framework_uuids = {UUID ''f1''},
       right_framework_uuids = {UUID ''f2''}, step_uuid = UUID ''s'', step_is_done = False,
       location = None\<rparr>"
       "''PandasDataframe''" "UUID ''f2''"]
    matched_routing [of "\<lparr>link = \<lparr>jointype = INNER, left_index = Index [''id''], right_index = Index [''id''],
                link_uuid = UUID ''l''\<rparr>,
       left_framework = ''PyarrowTable'', right_framework = ''PandasDataframe'',
       required_uuids = {UUID ''f1'', UUID ''f2''}, left_framework_uuids = {UUID ''f1''},
       right_framework_uuids = {UUID ''f2''}, step_uuid = UUID ''s'', step_is_done = False,
       location = None\<rparr>"
       "''PyarrowTable''" "UUID ''f3''"]
    matched_routing [of "\<lparr>link = \<lparr>jointype = INNER, left_index = Index [''id''], right_index = Index [''id''],
                link_uuid = UUID ''l''\<rparr>,
       left_framework = ''PyarrowTable'', right_framework = ''PandasDataframe'',
       required_uuids = {UUID ''f1'', UUID ''f2''}, left_framework_uuids = {UUID ''f1''},
       right_framework_uuids = {UUID ''f2''}, step_uuid = UUID ''s'', step_is_done = False,
       location = None\<rparr>"
       "''DuckDB''" "UUID ''f1''"]
  by simp

section \<open>Join-step execution\<close>

text \<open>
  What \<^verbatim>\<open>upload_finished_data\<close> does when the conversion for the exchange succeeds: the key
  is the text of the instance's own uuid, and no uuid is drawn.
\<close>

lemma upload_finished_data_result:
  "data s = m \<Longrightarrow>
   (case get_framework_transform_functions K False pa_Table of
      Some func \<Rightarrow> func m | None \<Rightarrow> Inr m) = Inr up \<Longrightarrow>
   upload_finished_data K s w l
     = Inr (str_of_uuid (uuid s),
            s\<lparr>data := up, object_ids := object_ids s @ [str_of_uuid (uuid s)]\<rparr>,
            FlightServer_upload_table w l up (str_of_uuid (uuid s)))"
  by (cases "get_framework_transform_functions K False pa_Table")
     (simp_all add: upload_finished_data_def upload_table_def Let_def)

text \<open>
  C4. When a join step is executed with a location that is set (given and not empty) and the
  destination's uuid is registered in the exchange registry, and the data of the other side
  is obtained, the destination has a merge engine, the merge succeeds and the conversion of
  the merged data for the exchange succeeds, then the step returns and the merged data is
  stored in the exchange service under the text of the destination's own uuid: that key
  holds the merged data afterwards, it is the only key that may be new, the object id is
  appended to the destination's object ids, and no fresh uuid is drawn.
\<close>
theorem join_reuploads_under_own_uuid:
  assumes "get_location reg = Some l" and "l \<noteq> []"
    and "truthy_datasets (get_uuid_flyway_datasets reg (uuid cfw))"
    and "get_data (self\<lparr>location := Some l\<rparr>) K w src = Inr from_data"
    and "merge_engine_method K = Inr engine"
    and "merge engine (data cfw) from_data (jointype (link self))
           (left_index (link self)) (right_index (link self)) = Inr merged"
    and "(case get_framework_transform_functions K False pa_Table of
            Some func \<Rightarrow> func merged | None \<Rightarrow> Inr merged) = Inr up"
  shows "execute self reg K cfw w (Some src)
           = Inr (self\<lparr>location := Some l\<rparr>,
                  cfw\<lparr>data := up, object_ids := object_ids cfw @ [str_of_uuid (uuid cfw)]\<rparr>,
                  FlightServer_upload_table w l up (str_of_uuid (uuid cfw)))
       \<and> flight (FlightServer_upload_table w l up (str_of_uuid (uuid cfw)))
            (l, str_of_uuid (uuid cfw)) = Some up
       \<and> uuid4_drawn (FlightServer_upload_table w l up (str_of_uuid (uuid cfw))) = uuid4_drawn w
       \<and> dom (flight (FlightServer_upload_table w l up (str_of_uuid (uuid cfw))))
            = insert (l, str_of_uuid (uuid cfw)) (dom (flight w))"
proof -
  have u: "upload_finished_data K (cfw\<lparr>data := merged\<rparr>) w l
       = Inr (str_of_uuid (uuid cfw),
            cfw\<lparr>data := up, object_ids := object_ids cfw @ [str_of_uuid (uuid cfw)]\<rparr>,
            FlightServer_upload_table w l up (str_of_uuid (uuid cfw)))"
    using assms(7) upload_finished_data_result [of "cfw\<lparr>data := merged\<rparr>" merged K up w l]
    by simp
  have e: "execute self reg K cfw w (Some src)
           = Inr (self\<lparr>location := Some l\<rparr>,
                  cfw\<lparr>data := up, object_ids := object_ids cfw @ [str_of_uuid (uuid cfw)]\<rparr>,
                  FlightServer_upload_table w l up (str_of_uuid (uuid cfw)))"
    using assms(1-6) u by (simp add: execute_def Let_def)
  show ?thesis
    using e by (simp add: FlightServer_upload_table_def)
qed

theorem join_reuploads_under_own_uuid_witness:
  "get_location example_register = Some ''grpc://localhost:8815''
   \<and> truthy_datasets (get_uuid_flyway_datasets example_register (uuid example_uploaded_cfw))
   \<and> execute example_step example_register example_class
        (example_uploaded_cfw\<lparr>data := example_table\<rparr>) example_uploaded_world (Some example_source)
       = Inr (example_step\<lparr>location := Some ''grpc://localhost:8815''\<rparr>,
              example_uploaded_cfw\<lparr>data := PyObj 3 [pa_Table, ''object''] [20, 30],
                                   object_ids := [''cfw-1'', ''cfw-1'']\<rparr>,
              FlightServer_upload_table example_uploaded_world ''grpc://localhost:8815''
                (PyObj 3 [pa_Table, ''object''] [20, 30]) ''cfw-1'')
   \<and> flight (FlightServer_upload_table example_uploaded_world ''grpc://localhost:8815''
                (PyObj 3 [pa_Table, ''object''] [20, 30]) ''cfw-1'')
         (''grpc://localhost:8815'', ''cfw-1'') = Some (PyObj 3 [pa_Table, ''object''] [20, 30])"
proof -
  let ?l = "''grpc://localhost:8815''"
  let ?cfw = "example_uploaded_cfw\<lparr>data := example_table\<rparr>"
  let ?merged = "PyObj 3 [pa_Table, ''object''] [20, 30] :: nat list pyval"
  have u: "uuid ?cfw = UUID ''cfw-1''" "object_ids ?cfw = [''cfw-1'']"
    "uuid example_uploaded_cfw = UUID ''cfw-1''"
    by (simp_all add: example_uploaded_cfw_def example_cfw_def ComputeFrameWork_init_def)
  have h1: "get_location example_register = Some ?l"
    by (simp add: get_location_def example_register_def)
  have h2: "?l \<noteq> []" by simp
  have h3: "truthy_datasets (get_uuid_flyway_datasets example_register (uuid ?cfw))"
    by (simp add: u get_uuid_flyway_datasets_def example_register_def)
  have h4: "get_data (example_step\<lparr>location := Some ?l\<rparr>) example_class example_uploaded_world
              example_source = Inr (PyObj 2 [pa_Table, ''object''] [20, 30, 40])"
    by (simp add: get_data_def example_source_def)
  have h5: "merge_engine_method example_class = Inr example_engine"
    by (simp add: example_class_def)
  have h6: "merge example_engine (data ?cfw) (PyObj 2 [pa_Table, ''object''] [20, 30, 40])
              (jointype (link example_step)) (left_index (link example_step))
              (right_index (link example_step)) = Inr ?merged"
    by (simp add: merge_def example_engine_def example_step_def example_table_def)
  have h7: "(case get_framework_transform_functions example_class False pa_Table of
               Some func \<Rightarrow> func ?merged | None \<Rightarrow> Inr ?merged) = Inr ?merged"
    by (simp add: example_class_def ComputeFrameWork_class_def)
  show ?thesis
    using join_reuploads_under_own_uuid [OF h1 h2 h3 h4 h5 h6 h7] h1 h3 u
    by (simp add: example_uploaded_cfw_def)
qed

section \<open>The end of \<^verbatim>\<open>run_calculation\<close>\<close>

text \<open>
  The pipeline changes neither the declared children, the tracker, the uuid nor the object
  ids of the instance, and \<^verbatim>\<open>run_calculation\<close> is the pipeline followed by the decision on
  the location.
\<close>

lemma set_filter_engine_features:
  "set_filter_engine K fs = Inr fs1 \<Longrightarrow> features fs1 = features fs"
  by (auto simp: set_filter_engine_def Let_def split: sum.splits error.splits if_splits)

lemma set_column_names_fields:
  "set_column_names K s = Inr s' \<Longrightarrow>
   children_if_root s' = children_if_root s
   \<and> already_calculated_children_tracker s' = already_calculated_children_tracker s
   \<and> uuid s' = uuid s \<and> object_ids s' = object_ids s \<and> data s' = data s"
  by (auto simp: set_column_names_def split: sum.splits)

lemma pipeline_result_fields:
  "pipeline_result K self fg fs d = Inr self3 \<Longrightarrow>
   children_if_root self3 = children_if_root self
   \<and> already_calculated_children_tracker self3 = already_calculated_children_tracker self
   \<and> uuid self3 = uuid self \<and> object_ids self3 = object_ids self"
  by (auto simp: pipeline_result_def Let_def split: sum.splits if_splits
      dest!: set_column_names_fields)

lemma run_calculation_after_pipeline:
  "run_calculation K self w fg fs loc d =
     (case pipeline_result K self fg fs d of
        Inl e \<Rightarrow> Inl e
      | Inr self3 \<Rightarrow>
         (case loc of
            None \<Rightarrow> Inr (PyNone, self3, w)
          | Some l \<Rightarrow>
             (if l = [] then Inr (PyNone, self3, w)
              else if card (children_if_root self3)
                        > card (already_calculated_children_tracker self3) + length (features fs)
              then Inr (data self3, self3, w)
              else (case upload_finished_data K self3 w l of
                      Inl e \<Rightarrow> Inl e
                    | Inr (oid, self4, w4) \<Rightarrow> Inr (PyStr oid, self4\<lparr>data := PyStr oid\<rparr>, w4)))))"
proof (cases "d = PyNone")
  case True
  then show ?thesis
    unfolding pipeline_result_def run_calculation_def Let_def
    by (simp split: sum.split option.split) (auto dest!: set_filter_engine_features)
next
  case False
  then show ?thesis
    unfolding pipeline_result_def run_calculation_def Let_def
    by (simp split: sum.split option.split) (auto dest!: set_filter_engine_features)
qed

lemma example_pipeline:
  "pipeline_result example_class (example_cfw\<lparr>children_if_root := cs\<rparr>) example_group
     example_features PyNone
   = Inr (example_cfw\<lparr>children_if_root := cs, data := example_table\<rparr>)"
  by (simp add: pipeline_result_def example_class_def example_cfw_def example_group_def
      example_features_def ComputeFrameWork_class_def ComputeFrameWork_init_def
      run_validate_input_features_def set_filter_engine_def run_calculate_feature_def
      get_function_extender_def run_final_filter_def self_transform_def transform_def
      transform_refactored_def isinstance_expected_def example_table_def set_column_names_def
      run_validate_output_features_def)

text \<open>
  C5 as stated fails for a location that is not \<^verbatim>\<open>None\<close> but empty: the call returns
  \<^verbatim>\<open>None\<close>, keeps the data in memory and uploads nothing, although the instance has no
  unconsumed child left.
\<close>
theorem run_calculation_empty_location_counterexample:
  "run_calculation example_class example_cfw example_world example_group example_features
     (Some []) PyNone
   = Inr (PyNone, example_cfw\<lparr>data := example_table\<rparr>, example_world)"
  using example_pipeline [of "children_if_root example_cfw"]
  by (simp add: run_calculation_after_pipeline)

text \<open>
  C5, amended. For a \<^verbatim>\<open>run_calculation\<close> call whose pipeline succeeds and whose location is
  given and not empty: if the number of declared children exceeds the number of tracked
  children plus the number of features of the feature set, the in-memory data is returned
  and nothing is uploaded; otherwise, when the conversion for the exchange succeeds, the
  data is stored in the exchange service under the text of the instance's uuid, and that
  string is returned and becomes the instance's data.
\<close>
theorem run_calculation_returns_data_or_handle:
  assumes "pipeline_result K self fg fs d = Inr self3"
    and "loc = Some l" and "l \<noteq> []"
  shows "(card (children_if_root self)
            > card (already_calculated_children_tracker self) + length (features fs) \<longrightarrow>
          run_calculation K self w fg fs loc d = Inr (data self3, self3, w))
       \<and> (\<not> card (children_if_root self)
              > card (already_calculated_children_tracker self) + length (features fs)
          \<and> (case get_framework_transform_functions K False pa_Table of
                Some func \<Rightarrow> func (data self3) | None \<Rightarrow> Inr (data self3)) = Inr up \<longrightarrow>
          run_calculation K self w fg fs loc d
            = Inr (PyStr (str_of_uuid (uuid self)),
                   self3\<lparr>data := PyStr (str_of_uuid (uuid self)),
                          object_ids := object_ids self @ [str_of_uuid (uuid self)]\<rparr>,
                   FlightServer_upload_table w l up (str_of_uuid (uuid self)))
          \<and> flight (FlightServer_upload_table w l up (str_of_uuid (uuid self)))
               (l, str_of_uuid (uuid self)) = Some up)"
proof (intro conjI impI)
  note f = pipeline_result_fields [OF assms(1)]
  note r = run_calculation_after_pipeline [of K self w fg fs loc d]
  {
    assume "card (children_if_root self)
            > card (already_calculated_children_tracker self) + length (features fs)"
    then show "run_calculation K self w fg fs loc d = Inr (data self3, self3, w)"
      using assms f r by simp
  }
  {
    assume h: "\<not> card (children_if_root self)
              > card (already_calculated_children_tracker self) + length (features fs)
          \<and> (case get_framework_transform_functions K False pa_Table of
                Some func \<Rightarrow> func (data self3) | None \<Rightarrow> Inr (data self3)) = Inr up"
    have u: "upload_finished_data K self3 w l
       = Inr (str_of_uuid (uuid self3),
            self3\<lparr>data := up, object_ids := object_ids self3 @ [str_of_uuid (uuid self3)]\<rparr>,
            FlightServer_upload_table w l up (str_of_uuid (uuid self3)))"
      using h upload_finished_data_result [of self3 "data self3" K up w l] by simp
    show "run_calculation K self w fg fs loc d
            = Inr (PyStr (str_of_uuid (uuid self)),
                   self3\<lparr>data := PyStr (str_of_uuid (uuid self)),
                          object_ids := object_ids self @ [str_of_uuid (uuid self)]\<rparr>,
                   FlightServer_upload_table w l up (str_of_uuid (uuid self)))"
      using assms f h r u by simp
    show "flight (FlightServer_upload_table w l up (str_of_uuid (uuid self)))
               (l, str_of_uuid (uuid self)) = Some up"
      by (simp add: FlightServer_upload_table_def)
  }
qed

theorem run_calculation_returns_data_or_handle_witness:
  "run_calculation example_class
       (example_cfw\<lparr>children_if_root := {UUID ''child-1'', UUID ''child-2''}\<rparr>)
       example_world example_group example_features (Some ''grpc://localhost:8815'') PyNone
     = Inr (example_table,
            example_cfw\<lparr>children_if_root := {UUID ''child-1'', UUID ''child-2''},
                         data := example_table\<rparr>,
            example_world)
   \<and> run_calculation example_class (example_cfw\<lparr>children_if_root := {UUID ''child-1''}\<rparr>)
       example_world example_group example_features (Some ''grpc://localhost:8815'') PyNone
     = Inr (PyStr ''cfw-1'',
            example_cfw\<lparr>children_if_root := {UUID ''child-1''}, data := PyStr ''cfw-1'',
                         object_ids := [''cfw-1'']\<rparr>,
            FlightServer_upload_table example_world ''grpc://localhost:8815'' example_table ''cfw-1'')"
proof -
  have l: "''grpc://localhost:8815'' \<noteq> []" by simp
  have f: "length (features example_features) = 1"
    by (simp add: example_features_def add_def FeatureSet_init_def set_add_def Let_def)
  have c: "already_calculated_children_tracker (example_cfw\<lparr>children_if_root := cs\<rparr>) = {}"
    "uuid (example_cfw\<lparr>children_if_root := cs\<rparr>) = UUID ''cfw-1''"
    "object_ids (example_cfw\<lparr>children_if_root := cs\<rparr>) = []" for cs
    by (simp_all add: example_cfw_def ComputeFrameWork_init_def)
  have up: "(case get_framework_transform_functions example_class False pa_Table of
               Some func \<Rightarrow> func (data (example_cfw\<lparr>children_if_root := cs, data := example_table\<rparr>))
             | None \<Rightarrow> Inr (data (example_cfw\<lparr>children_if_root := cs, data := example_table\<rparr>)))
            = Inr example_table" for cs
    by (simp add: example_class_def ComputeFrameWork_class_def)
  note a = run_calculation_returns_data_or_handle
      [OF example_pipeline [of "{UUID ''child-1'', UUID ''child-2''}"] refl l,
       of example_world example_table, THEN conjunct1]
  note b = run_calculation_returns_data_or_handle
      [OF example_pipeline [of "{UUID ''child-1''}"] refl l,
       of example_world example_table, THEN conjunct2]
  show ?thesis
    using a b up [of "{UUID ''child-1''}"] by (simp add: f c)
qed

section \<open>Transforming data of the expected type\<close>

text \<open>
  C6. For a framework whose \<^verbatim>\<open>expected_data_framework()\<close> is a type, and data that is an
  instance of that type, \<^verbatim>\<open>transform_refactored\<close> and the inherited \<^verbatim>\<open>transform\<close> return the
  data itself: the same object (same identity and content), for every transform map and
  every set of feature names.
\<close>
theorem identity_on_expected_type:
  "expected_data_framework K = Some T \<and> isinstance d T
   \<longrightarrow> transform_refactored K d tm = Inr d \<and> transform K d names tm = Inr d"
  by (simp add: transform_def transform_refactored_def isinstance_expected_def)

theorem identity_on_expected_type_witness:
  "expected_data_framework example_class = Some pa_Table
   \<and> isinstance example_table pa_Table
   \<and> transform example_class example_table {''a''} None = Inr example_table"
  using identity_on_expected_type [of example_class pa_Table example_table None "{''a''}"]
  by (simp add: example_class_def example_table_def ComputeFrameWork_class_def)

section \<open>Adding features to a feature set\<close>

lemma foldl_add_options:
  "options s = Some v \<Longrightarrow> options (foldl add s gs) = Some v"
  by (induction gs arbitrary: s) (simp_all add: add_def Let_def)

lemma foldl_add_any_uuid:
  "any_uuid s = Some v \<Longrightarrow> any_uuid (foldl add s gs) = Some v"
  by (induction gs arbitrary: s) (simp_all add: add_def Let_def)

lemma foldl_add_name:
  "name_of_one_feature (foldl add (add s f) gs) = Some (name (last (f # gs)))"
proof (induction gs arbitrary: s f)
  case Nil
  show ?case by (simp add: add_def Let_def)
next
  case (Cons g gs)
  show ?case using Cons.IH [of "add s f" g] by simp
qed

text \<open>
  C7 as stated fails for the representative name: after adding feature a and then feature b
  to a new feature set, \<^verbatim>\<open>name_of_one_feature\<close> is the name of b, not of a.
\<close>
theorem representative_name_counterexample:
  "name_of_one_feature (add (FeatureSet_init example_filter_engine) (example_feature ''a''))
     = Some (FeatureName ''a'')
   \<and> name_of_one_feature
       (add (add (FeatureSet_init example_filter_engine) (example_feature ''a'')) (example_feature ''b''))
     = Some (FeatureName ''b'')"
  by (simp add: add_def FeatureSet_init_def example_feature_def Let_def)

text \<open>
  C7, amended. For a new feature set and every sequence of \<^verbatim>\<open>add\<close> calls, the options bag
  and \<^verbatim>\<open>any_uuid\<close> are those of the first feature added, whatever is added later;
  \<^verbatim>\<open>name_of_one_feature\<close> is the name of the feature added last.
\<close>
theorem first_feature_freezes_options:
  "options (foldl add (FeatureSet_init b) (f # gs)) = Some (feature_options f)
   \<and> any_uuid (foldl add (FeatureSet_init b) (f # gs)) = Some (feature_uuid f)
   \<and> name_of_one_feature (foldl add (FeatureSet_init b) (f # gs)) = Some (name (last (f # gs)))"
proof -
  have o: "options (add (FeatureSet_init b) f) = Some (feature_options f)"
    by (simp add: add_def FeatureSet_init_def Let_def)
  have u: "any_uuid (add (FeatureSet_init b) f) = Some (feature_uuid f)"
    by (simp add: add_def FeatureSet_init_def Let_def)
  show ?thesis
    using foldl_add_options [OF o, of gs] foldl_add_any_uuid [OF u, of gs]
      foldl_add_name [of "FeatureSet_init b" f gs]
    by simp
qed

theorem first_feature_freezes_options_witness:
  "options (foldl add (FeatureSet_init example_filter_engine)
              [example_feature ''a'', example_feature ''b''])
     = Some (Options [(''source'', ''a'')])
   \<and> any_uuid (foldl add (FeatureSet_init example_filter_engine)
              [example_feature ''a'', example_feature ''b''])
     = Some (UUID ''feature-a'')
   \<and> name_of_one_feature (foldl add (FeatureSet_init example_filter_engine)
              [example_feature ''a'', example_feature ''b''])
     = Some (FeatureName ''b'')"
  using first_feature_freezes_options [of example_filter_engine "example_feature ''a''"
      "[example_feature ''b'']"]
  by (simp add: example_feature_def)

section \<open>Validation\<close>

lemma run_validate_input_features_result:
  "data self \<noteq> PyNone \<Longrightarrow> input_validation_result self fg fs = Inr r \<Longrightarrow>
   run_validate_input_features self fg fs
     = (if r = PyNone \<or> r = PyBool True then Inr () else Inl (ValueError r))"
  by (auto simp: run_validate_input_features_def input_validation_result_def
      split: sum.splits option.splits)

lemma run_validate_output_features_result:
  "data self \<noteq> PyNone \<Longrightarrow> output_validation_result self fg fs = Inr r \<Longrightarrow>
   run_validate_output_features self fg fs
     = (if r = PyNone \<or> r = PyBool True then Inr () else Inl (ValueError r))"
  by (auto simp: run_validate_output_features_def output_validation_result_def
      split: sum.splits option.splits)

text \<open>
  C8 as stated fails for a true result other than \<^verbatim>\<open>True\<close>: a validator that returns the
  message \<^verbatim>\<open>column missing\<close>, or the number 1, has a result that is not falsy, and the
  result is raised all the same.
\<close>
theorem truthy_result_raised_counterexample:
  "py_bool (PyStr ''column missing'' :: nat list pyval)
   \<and> run_validate_input_features (example_cfw\<lparr>data := example_table\<rparr>) example_message_group
       example_features = Inl (ValueError (PyStr ''column missing''))
   \<and> py_bool (PyInt 1 :: nat list pyval)
   \<and> run_validate_output_features (example_cfw\<lparr>data := example_table\<rparr>) example_message_group
       example_features = Inl (ValueError (PyInt 1))"
  by (simp add: run_validate_input_features_def run_validate_output_features_def
      get_function_extender_def example_cfw_def ComputeFrameWork_init_def
      example_message_group_def example_table_def)

text \<open>
  C8, amended. When the instance holds data and the validator call (direct or wrapped)
  returns a result, \<^verbatim>\<open>run_validate_input_features\<close> raises \<^verbatim>\<open>ValueError\<close> carrying exactly
  that result if and only if the result is neither \<^verbatim>\<open>None\<close> nor \<^verbatim>\<open>True\<close>, and returns
  normally if and only if it is \<^verbatim>\<open>None\<close> or \<^verbatim>\<open>True\<close>. So every falsy result other than
  \<^verbatim>\<open>None\<close> is raised, and for a result that is \<^verbatim>\<open>None\<close> or a boolean the error is raised
  exactly for \<^verbatim>\<open>False\<close>. The same holds for \<^verbatim>\<open>run_validate_output_features\<close>.
\<close>
theorem validation_result_raised_verbatim:
  "(data self \<noteq> PyNone \<and> input_validation_result self fg fs = Inr r \<longrightarrow>
      (run_validate_input_features self fg fs = Inl (ValueError r)
         \<longleftrightarrow> r \<noteq> PyNone \<and> r \<noteq> PyBool True)
    \<and> (run_validate_input_features self fg fs = Inr ()
         \<longleftrightarrow> r = PyNone \<or> r = PyBool True)
    \<and> (r \<noteq> PyNone \<and> \<not> py_bool r \<longrightarrow>
         run_validate_input_features self fg fs = Inl (ValueError r))
    \<and> (r = PyNone \<or> (\<exists>b. r = PyBool b) \<longrightarrow>
         (run_validate_input_features self fg fs = Inl (ValueError r) \<longleftrightarrow> r = PyBool False)))
   \<and> (data self \<noteq> PyNone \<and> output_validation_result self fg fs = Inr r \<longrightarrow>
      (run_validate_output_features self fg fs = Inl (ValueError r)
         \<longleftrightarrow> r \<noteq> PyNone \<and> r \<noteq> PyBool True)
    \<and> (run_validate_output_features self fg fs = Inr ()
         \<longleftrightarrow> r = PyNone \<or> r = PyBool True)
    \<and> (r \<noteq> PyNone \<and> \<not> py_bool r \<longrightarrow>
         run_validate_output_features self fg fs = Inl (ValueError r))
    \<and> (r = PyNone \<or> (\<exists>b. r = PyBool b) \<longrightarrow>
         (run_validate_output_features self fg fs = Inl (ValueError r) \<longleftrightarrow> r = PyBool False)))"
  by (auto simp: run_validate_input_features_result run_validate_output_features_result)

theorem validation_result_raised_verbatim_witness:
  "data (example_cfw\<lparr>data := example_table\<rparr>) \<noteq> PyNone
   \<and> input_validation_result (example_cfw\<lparr>data := example_table\<rparr>) example_group example_features
       = Inr (PyBool False)
   \<and> run_validate_input_features (example_cfw\<lparr>data := example_table\<rparr>) example_group example_features
       = Inl (ValueError (PyBool False))
   \<and> output_validation_result (example_cfw\<lparr>data := example_table\<rparr>) example_group example_features
       = Inr (PyBool True)
   \<and> run_validate_output_features (example_cfw\<lparr>data := example_table\<rparr>) example_group example_features
       = Inr ()"
proof -
  have i: "input_validation_result (example_cfw\<lparr>data := example_table\<rparr>) example_group example_features
       = Inr (PyBool False)"
    by (simp add: input_validation_result_def get_function_extender_def example_cfw_def
        ComputeFrameWork_init_def example_group_def)
  have out: "output_validation_result (example_cfw\<lparr>data := example_table\<rparr>) example_group example_features
       = Inr (PyBool True)"
    by (simp add: output_validation_result_def get_function_extender_def example_cfw_def
        ComputeFrameWork_init_def example_group_def)
  have d: "data (example_cfw\<lparr>data := example_table\<rparr>) \<noteq> PyNone"
    by (simp add: example_table_def)
  show ?thesis
    using i out d
      validation_result_raised_verbatim [of "example_cfw\<lparr>data := example_table\<rparr>"
        example_group example_features "PyBool False"]
      validation_result_raised_verbatim [of "example_cfw\<lparr>data := example_table\<rparr>"
        example_group example_features "PyBool True"]
    by simp
qed

section \<open>The default uuid of a framework instance\<close>

text \<open>
  C9. The code does not give two instances constructed without a uuid argument distinct
  uuids: both receive the one value drawn when the class was defined, whatever the other
  arguments are.
\<close>
theorem default_uuid_is_shared:
  fixes w :: "'a world" and fe1 fe2 :: "'a extender list option"
  shows "uuid (ComputeFrameWork_init (fst (define_ComputeFrameWork w)) m1 c1 None fe1)
     = uuid (ComputeFrameWork_init (fst (define_ComputeFrameWork w)) m2 c2 None fe2)
   \<and> uuid (ComputeFrameWork_init (fst (define_ComputeFrameWork w)) m1 c1 None fe1)
     = uuid4_source w (uuid4_drawn w)"
  by (simp add: ComputeFrameWork_init_def define_ComputeFrameWork_def uuid4_def)

theorem default_uuid_is_shared_witness:
  "uuid (ComputeFrameWork_init (fst (define_ComputeFrameWork example_world)) SYNC {} None None
          :: nat list ComputeFrameWork)
     = uuid (ComputeFrameWork_init (fst (define_ComputeFrameWork example_world))
               MULTIPROCESSING {UUID ''child-1''} None None :: nat list ComputeFrameWork)
   \<and> uuid (ComputeFrameWork_init (fst (define_ComputeFrameWork example_world)) SYNC {} None None
          :: nat list ComputeFrameWork)
     = UUID ''u''"
  using default_uuid_is_shared [of example_world SYNC "{}" None MULTIPROCESSING "{UUID ''child-1''}" None]
  by (simp add: example_world_def ComputeFrameWork_init_def define_ComputeFrameWork_def uuid4_def)

section \<open>Validation without data\<close>

lemma run_calculate_feature_indep:
  "run_calculate_feature self (fg\<lparr>validate_input_features := v\<rparr>) fs = run_calculate_feature self fg fs"
  by (simp add: run_calculate_feature_def split: sum.splits option.splits)

lemma run_validate_output_features_indep:
  "run_validate_output_features self (fg\<lparr>validate_input_features := v\<rparr>) fs
     = run_validate_output_features self fg fs"
  by (simp add: run_validate_output_features_def split: sum.splits option.splits)

text \<open>
  C10. For an instance whose data is \<^verbatim>\<open>None\<close>, \<^verbatim>\<open>run_validate_input_features\<close> and
  \<^verbatim>\<open>run_validate_output_features\<close> return normally for every feature group and every set of
  extenders, so the validators are not consulted; and \<^verbatim>\<open>run_calculation\<close> without prior
  data and without a data argument does not depend on the feature group's input validator.
\<close>
theorem no_validation_without_data:
  "data self = PyNone \<longrightarrow>
     run_validate_input_features self fg fs = Inr ()
   \<and> run_validate_output_features self fg fs = Inr ()
   \<and> run_calculation K self w fg fs loc PyNone
       = run_calculation K self w (fg\<lparr>validate_input_features := v\<rparr>) fs loc PyNone"
proof (intro impI conjI)
  assume none: "data self = PyNone"
  show "run_validate_input_features self fg fs = Inr ()"
    using none by (simp add: run_validate_input_features_def)
  show "run_validate_output_features self fg fs = Inr ()"
    using none by (simp add: run_validate_output_features_def)
  have skip: "run_validate_input_features self g fs = Inr ()" for g
    using none by (simp add: run_validate_input_features_def)
  show "run_calculation K self w fg fs loc PyNone
       = run_calculation K self w (fg\<lparr>validate_input_features := v\<rparr>) fs loc PyNone"
    unfolding run_calculation_def run_calculate_feature_indep run_validate_output_features_indep
    by (simp add: skip)
qed

theorem no_validation_without_data_witness:
  "data example_cfw = PyNone
   \<and> run_validate_input_features example_cfw example_group example_features = Inr ()
   \<and> run_validate_output_features example_cfw example_group example_features = Inr ()"
  using no_validation_without_data [of example_cfw example_group example_features]
  by (simp add: example_cfw_def ComputeFrameWork_init_def)

end
